theory Spec2Isabelle
  imports Complex_Main "HOL-Library.AList"
begin

section \<open>Data model of \<open>qopen/site.py\<close>\<close>

text \<open>
  The result dictionary of Qopen holds, under the key \<open>events\<close>, an insertion-ordered
  dictionary from event identifiers to event results; an event result is \<open>None\<close> or a
  dictionary with the source energy list \<open>W\<close> (one entry per frequency band) and the
  site amplification dictionary \<open>R\<close> (station name to a list with one entry per band).
  An entry is \<open>None\<close>, the float \<open>nan\<close>, or a number. Numbers are real numbers here:
  arithmetic is exact, rounding is not part of this model, and the non-finite results of
  numpy (\<open>inf\<close>, \<open>-inf\<close>, \<open>nan\<close>) are all the one value \<open>NaN\<close>. Two names for the
  same list object are not modelled: every list is its own object.
\<close>

datatype pyfloat = NaN | Num real

type_synonym entry = "pyfloat option"
type_synonym station = string
type_synonym evid = string

record eres =
  W :: "entry list"
  R :: "(station \<times> entry list) list"

record results =
  events :: "(evid \<times> eres option) list"

datatype error =
    AssertionError | TypeError | IndexError | KeyError | ValueError | ZeroDivisionError
  | NotImplementedError | QhullError | SolverError

text \<open>\<open>X is None or np.isnan(X)\<close> is the test for a missing entry.\<close>

fun missing :: "entry \<Rightarrow> bool" where
  "missing None = True"
| "missing (Some NaN) = True"
| "missing (Some (Num x)) = False"

text \<open>
  Float arithmetic: \<open>nan\<close> is absorbing, and a division by zero, which numpy answers
  with \<open>inf\<close> or \<open>nan\<close> and a warning, is the non-finite value.
\<close>

fun fmul :: "pyfloat \<Rightarrow> pyfloat \<Rightarrow> pyfloat" where
  "fmul (Num a) (Num b) = Num (a * b)"
| "fmul _ _ = NaN"

fun fdiv :: "pyfloat \<Rightarrow> pyfloat \<Rightarrow> pyfloat" where
  "fdiv (Num a) (Num b) = (if b = 0 then NaN else Num (a / b))"
| "fdiv _ _ = NaN"

fun fadd :: "pyfloat \<Rightarrow> pyfloat \<Rightarrow> pyfloat" where
  "fadd (Num a) (Num b) = Num (a + b)"
| "fadd _ _ = NaN"

fun fsub :: "pyfloat \<Rightarrow> pyfloat \<Rightarrow> pyfloat" where
  "fsub (Num a) (Num b) = Num (a - b)"
| "fsub _ _ = NaN"

text \<open>
  \<open>np.log\<close> of a number that is not positive is \<open>-inf\<close> or \<open>nan\<close> (with a warning,
  no exception); \<open>np.exp\<close> of a number is positive.
\<close>

fun np_log :: "pyfloat \<Rightarrow> pyfloat" where
  "np_log (Num x) = (if 0 < x then Num (ln x) else NaN)"
| "np_log NaN = NaN"

fun np_exp :: "pyfloat \<Rightarrow> pyfloat" where
  "np_exp (Num x) = Num (exp x)"
| "np_exp NaN = NaN"

text \<open>
  An operation on the result dictionary changes it in place and returns or raises. It is
  modelled as a function to the pair of the dictionary as the operation leaves it and the
  exception raised, if any.
\<close>

type_synonym 's outcome = "'s \<times> error option"

section \<open>\<open>_get_number_of_freqs\<close> and \<open>_rescale_results\<close>\<close>

text \<open>
  \<open>_get_number_of_freqs\<close>: the loop variable \<open>Nf\<close> starts as \<open>None\<close>; an event result that
  is \<open>None\<close> cannot be subscripted (\<open>TypeError\<close>); two events with different numbers of
  bands fail the assertion.
\<close>

fun get_number_of_freqs_loop ::
  "nat option \<Rightarrow> (evid \<times> eres option) list \<Rightarrow> error + nat option" where
  "get_number_of_freqs_loop Nf [] = Inr Nf"
| "get_number_of_freqs_loop Nf ((ev, None) # rest) = Inl TypeError"
| "get_number_of_freqs_loop Nf ((ev, Some e) # rest) =
     (let Nf2 = length (W e) in
      if Nf \<noteq> None \<and> Nf \<noteq> Some Nf2 then Inl AssertionError
      else get_number_of_freqs_loop (Some Nf2) rest)"

definition get_number_of_freqs :: "results \<Rightarrow> error + nat option" where
  "get_number_of_freqs res = get_number_of_freqs_loop None (events res)"

text \<open>
  The factor matrix is a two-dimensional numpy array, here the list of its rows (one per
  event); \<open>factors[k, i]\<close> outside of it raises \<open>IndexError\<close>.
\<close>

definition factor_at :: "pyfloat list list \<Rightarrow> nat \<Rightarrow> nat \<Rightarrow> error + pyfloat" where
  "factor_at factors k i =
     (if k < length factors \<and> i < length (factors ! k) then Inr (factors ! k ! i)
      else Inl IndexError)"

text \<open>
  \<open>for sta, Rsta in R.items()\<close> (lines 69-72), for band \<open>i\<close> and the factor \<open>f\<close> of the
  event: a missing entry is skipped, any other is multiplied in place.
\<close>

fun rescale_R ::
  "nat \<Rightarrow> pyfloat \<Rightarrow> (station \<times> entry list) list \<Rightarrow> (station \<times> entry list) list outcome" where
  "rescale_R i f [] = ([], None)"
| "rescale_R i f ((sta, Rsta) # rest) =
     (if length Rsta \<le> i then ((sta, Rsta) # rest, Some IndexError)
      else if missing (Rsta ! i) then
        (let (rest', err) = rescale_R i f rest in ((sta, Rsta) # rest', err))
      else
        (let (rest', err) = rescale_R i f rest
         in ((sta, Rsta[i := Some (fmul (the (Rsta ! i)) f)]) # rest', err)))"

text \<open>
  The body of the loop over the events (lines 63-72) for one event result: when the
  energy entry of the band is missing, \<open>continue\<close> leaves the whole event as it is.
\<close>

definition rescale_event :: "nat \<Rightarrow> nat \<Rightarrow> pyfloat list list \<Rightarrow> eres \<Rightarrow> eres outcome" where
  "rescale_event i k factors e =
     (if length (W e) \<le> i then (e, Some IndexError)
      else if missing (W e ! i) then (e, None)
      else (case factor_at factors k i of
              Inl err \<Rightarrow> (e, Some err)
            | Inr f \<Rightarrow>
                (let e1 = e\<lparr>W := (W e)[i := Some (fdiv (the (W e ! i)) f)]\<rparr>;
                     (R', err) = rescale_R i f (R e1)
                 in (e1\<lparr>R := R'\<rparr>, err))))"

text \<open>\<open>for k, item in enumerate(results['events'].items())\<close>, from position \<open>k\<close> on.\<close>

fun rescale_events ::
  "nat \<Rightarrow> nat \<Rightarrow> pyfloat list list \<Rightarrow> (evid \<times> eres option) list
     \<Rightarrow> (evid \<times> eres option) list outcome" where
  "rescale_events i k factors [] = ([], None)"
| "rescale_events i k factors ((ev, None) # rest) = ((ev, None) # rest, Some TypeError)"
| "rescale_events i k factors ((ev, Some e) # rest) =
     (case rescale_event i k factors e of
        (e', Some err) \<Rightarrow> ((ev, Some e') # rest, Some err)
      | (e', None) \<Rightarrow>
          (let (rest', err) = rescale_events i (Suc k) factors rest
           in ((ev, Some e') # rest', err)))"

text \<open>\<open>for i in range(Nf)\<close>, over the bands still to do.\<close>

fun rescale_bands ::
  "pyfloat list list \<Rightarrow> nat list \<Rightarrow> (evid \<times> eres option) list
     \<Rightarrow> (evid \<times> eres option) list outcome" where
  "rescale_bands factors [] evs = (evs, None)"
| "rescale_bands factors (i # bands) evs =
     (case rescale_events i 0 factors evs of
        (evs', Some err) \<Rightarrow> (evs', Some err)
      | (evs', None) \<Rightarrow> rescale_bands factors bands evs')"

text \<open>
  \<open>_rescale_results\<close>. With no event at all \<open>Nf\<close> is \<open>None\<close> and \<open>range(Nf)\<close> raises
  \<open>TypeError\<close>.
\<close>

definition rescale_results :: "results \<Rightarrow> pyfloat list list \<Rightarrow> results outcome" where
  "rescale_results res factors =
     (case get_number_of_freqs res of
        Inl err \<Rightarrow> (res, Some err)
      | Inr None \<Rightarrow> (res, Some TypeError)
      | Inr (Some Nf) \<Rightarrow>
          (let (evs, err) = rescale_bands factors [0..<Nf] (events res)
           in (res\<lparr>events := evs\<rparr>, err)))"

section \<open>\<open>_merge_sets\<close>\<close>

text \<open>
  A Python set is the list of its elements, without repetition, in the order the set
  is iterated. CPython fixes that order by hashing, so nothing below depends on
  it but the name an area gets; the statements about areas speak of \<open>set xs\<close>.
\<close>

type_synonym 'a pyset = "'a list"

definition isdisjoint :: "'a pyset \<Rightarrow> 'a pyset \<Rightarrow> bool" where
  "isdisjoint a b = (\<forall>x \<in> set a. x \<notin> set b)"

definition update :: "'a pyset \<Rightarrow> 'a pyset \<Rightarrow> 'a pyset" where
  "update eachset aset = eachset @ filter (\<lambda>x. x \<notin> set eachset) (remdups aset)"

text \<open>
  The inner \<open>for eachset in newsets\<close> with its \<open>else\<close>: the first set of \<open>newsets\<close>
  that meets \<open>aset\<close> absorbs it; when there is none, \<open>aset\<close> is appended.
\<close>

fun merge_into :: "'a pyset \<Rightarrow> 'a pyset list \<Rightarrow> 'a pyset list" where
  "merge_into aset [] = [aset]"
| "merge_into aset (eachset # rest) =
     (if \<not> isdisjoint aset eachset then update eachset aset # rest
      else eachset # merge_into aset rest)"

text \<open>One round of the \<open>while\<close> loop: \<open>for aset in sets\<close>, starting from no new sets.\<close>

definition merge_pass :: "'a pyset list \<Rightarrow> 'a pyset list" where
  "merge_pass sets = foldl (\<lambda>newsets aset. merge_into aset newsets) [] sets"

lemma length_merge_into:
  "length (merge_into a ns) = length ns \<or> length (merge_into a ns) = Suc (length ns)"
  by (induction ns) auto

lemma length_foldl_merge_into:
  "length (foldl (\<lambda>newsets aset. merge_into aset newsets) ns xs) \<le> length ns + length xs"
proof (induction xs arbitrary: ns)
  case Nil
  show ?case by simp
next
  case (Cons a xs)
  have "length (merge_into a ns) \<le> Suc (length ns)"
    using length_merge_into [of a ns] by auto
  with Cons [of "merge_into a ns"] show ?case by simp
qed

lemma length_merge_pass: "length (merge_pass xs) \<le> length xs"
  using length_foldl_merge_into [of "[]" xs] by (simp add: merge_pass_def)

text \<open>
  \<open>while len(sets) != len(newsets): sets, newsets = newsets, [] ...\<close>: the loop
  state is the pair of the two lists.
\<close>

function merge_loop :: "'a pyset list \<Rightarrow> 'a pyset list \<Rightarrow> 'a pyset list" where
  "merge_loop sets newsets =
     (if length sets \<noteq> length newsets then merge_loop newsets (merge_pass newsets)
      else newsets)"
  by pat_completeness auto
termination
proof (relation "measure (\<lambda>(s, n). length n + (if length s \<noteq> length n then 1 else 0))")
  show "wf (measure (\<lambda>(s, n). length n + (if length s \<noteq> length n then 1 else 0)))"
    by simp
next
  fix sets newsets :: "'a pyset list"
  assume "length sets \<noteq> length newsets"
  then show "((newsets, merge_pass newsets), (sets, newsets))
      \<in> measure (\<lambda>(s, n). length n + (if length s \<noteq> length n then 1 else 0))"
    using length_merge_pass [of newsets] by auto
qed

declare merge_loop.simps [simp del]

definition merge_sets :: "'a pyset list \<Rightarrow> 'a pyset list" where
  "merge_sets sets = merge_loop [] sets"

section \<open>\<open>_find_unconnected_areas\<close>\<close>

text \<open>
  The set comprehension of lines 98-99: the stations of \<open>R\<close> whose entry for the band is
  not missing. An entry list that is too short raises \<open>IndexError\<close>.
\<close>

fun valid_stations :: "nat \<Rightarrow> (station \<times> entry list) list \<Rightarrow> error + station pyset" where
  "valid_stations freqi [] = Inr []"
| "valid_stations freqi ((sta, Rsta) # rest) =
     (if length Rsta \<le> freqi then Inl IndexError
      else (case valid_stations freqi rest of
              Inl err \<Rightarrow> Inl err
            | Inr area \<Rightarrow> Inr (if missing (Rsta ! freqi) then area else List.insert sta area)))"

text \<open>
  The loop of lines 96-101: one set for every event that has a valid station, in the
  order of the events. An event result that is \<open>None\<close> cannot be subscripted.
\<close>

fun collect_areas :: "nat \<Rightarrow> (evid \<times> eres option) list \<Rightarrow> error + station pyset list" where
  "collect_areas freqi [] = Inr []"
| "collect_areas freqi ((ev, None) # rest) = Inl TypeError"
| "collect_areas freqi ((ev, Some e) # rest) =
     (case valid_stations freqi (R e) of
        Inl err \<Rightarrow> Inl err
      | Inr area \<Rightarrow>
          (case collect_areas freqi rest of
             Inl err \<Rightarrow> Inl err
           | Inr areas \<Rightarrow> Inr (if length area > 0 then area # areas else areas)))"

text \<open>
  The dictionary comprehension of line 103, \<open>{list(a)[0]: a for a in areas}\<close>: a
  dictionary keeps the position of a key that is set again.
\<close>

fun name_areas ::
  "station pyset list \<Rightarrow> (station \<times> station pyset) list
     \<Rightarrow> error + (station \<times> station pyset) list" where
  "name_areas [] d = Inr d"
| "name_areas ([] # rest) d = Inl IndexError"
| "name_areas ((x # xs) # rest) d = name_areas rest (AList.update x (x # xs) d)"

definition find_unconnected_areas ::
  "results \<Rightarrow> nat \<Rightarrow> error + (station \<times> station pyset) list" where
  "find_unconnected_areas res freqi =
     (case collect_areas freqi (events res) of
        Inl err \<Rightarrow> Inl err
      | Inr areas \<Rightarrow> name_areas (merge_sets areas) [])"

section \<open>\<open>align_site_responses\<close>\<close>

text \<open>
  Lines 182-183: the events whose result is \<open>None\<close> are dropped from the dictionary.
\<close>

definition drop_missing_events :: "results \<Rightarrow> results" where
  "drop_missing_events res = res\<lparr>events := filter (\<lambda>(ev, eo). eo \<noteq> None) (events res)\<rparr>"

text \<open>
  Lines 195-202, \<open>Nstations\<close>: for every band a \<open>defaultdict(int)\<close> from station to the
  number of events with a valid entry of the station in the band. A dictionary is the
  list of its items in insertion order.
\<close>

definition incr :: "station \<Rightarrow> (station \<times> nat) list \<Rightarrow> (station \<times> nat) list" where
  "incr sta d = AList.update sta (case map_of d sta of None \<Rightarrow> 1 | Some n \<Rightarrow> n + 1) d"

fun count_R ::
  "nat \<Rightarrow> (station \<times> entry list) list \<Rightarrow> (station \<times> nat) list \<Rightarrow> error + (station \<times> nat) list" where
  "count_R i [] d = Inr d"
| "count_R i ((sta, Rsta) # rest) d =
     (if length Rsta \<le> i then Inl IndexError
      else if missing (Rsta ! i) then count_R i rest d
      else count_R i rest (incr sta d))"

fun count_bands ::
  "nat list \<Rightarrow> (station \<times> entry list) list \<Rightarrow> (station \<times> nat) list list
     \<Rightarrow> error + (station \<times> nat) list list" where
  "count_bands [] Rs N = Inr N"
| "count_bands (i # bands) Rs N =
     (case count_R i Rs (N ! i) of
        Inl err \<Rightarrow> Inl err
      | Inr d \<Rightarrow> count_bands bands Rs (N[i := d]))"

fun count_events ::
  "nat \<Rightarrow> (evid \<times> eres option) list \<Rightarrow> (station \<times> nat) list list
     \<Rightarrow> error + (station \<times> nat) list list" where
  "count_events Nf [] N = Inr N"
| "count_events Nf ((ev, None) # rest) N = Inl TypeError"
| "count_events Nf ((ev, Some e) # rest) N =
     (case count_bands [0..<Nf] (R e) N of
        Inl err \<Rightarrow> Inl err
      | Inr N' \<Rightarrow> count_events Nf rest N')"

definition count_stations ::
  "nat \<Rightarrow> (evid \<times> eres option) list \<Rightarrow> error + (station \<times> nat) list list" where
  "count_stations Nf evs = count_events Nf evs (replicate Nf [])"

text \<open>
  Lines 228-231: \<open>max(areas, key=lambda k: len(areas[k]))\<close> returns the first key, in
  the order of the dictionary, whose area has the most stations, and raises \<open>ValueError\<close>
  on an empty dictionary.
\<close>

definition largest_area :: "(station \<times> station pyset) list \<Rightarrow> error + station pyset" where
  "largest_area areas =
     (case areas of
        [] \<Rightarrow> Inl ValueError
      | p # rest \<Rightarrow>
          Inr (snd (foldl (\<lambda>best q. if length (snd q) > length (snd best) then q else best)
                      p rest)))"

text \<open>
  The system \<open>A x = b\<close> under construction (lines 233-238): the number of rows \<open>row[0]\<close>, the
  right-hand side \<open>b\<close>, and the coefficients, which are the three lists \<open>data\<close>, \<open>row\<close>,
  \<open>column\<close> when \<open>use_sparse\<close> holds and the list of the dense rows otherwise.
\<close>

datatype arepr = Sparse "real list" "nat list" "nat list" | Dense "real list list"

record ols =
  row0 :: nat
  b_rhs :: "pyfloat list"
  Arepr :: arepr

text \<open>\<open>construct_ols\<close> (lines 204-217).\<close>

definition construct_ols :: "nat \<Rightarrow> (nat \<times> real) list \<Rightarrow> pyfloat \<Rightarrow> ols \<Rightarrow> ols" where
  "construct_ols Ne coldata b_val st =
     \<lparr>row0 = row0 st + 1,
      b_rhs = b_rhs st @ [b_val],
      Arepr =
        (case Arepr st of
           Sparse dat rows cols \<Rightarrow>
             Sparse (dat @ map snd coldata) (rows @ map (\<lambda>_. row0 st) coldata)
               (cols @ map fst coldata)
         | Dense Arows \<Rightarrow>
             Dense (Arows @ [foldl (\<lambda>Arow (col, dat). Arow[col := dat])
                               (replicate Ne 0) coldata]))\<rparr>"

text \<open>
  The state of the loop over the events of one band (lines 233-279). The dictionary \<open>last\<close> is \<open>last_seen\<close>; the dictionary
  \<open>first\<close> is written in line 279 and never read; it is left out.
\<close>

record build =
  system :: ols
  norm_row_A :: "(nat \<times> real) list"
  norm_row_b :: pyfloat
  last_seen :: "(station \<times> nat \<times> real) list"

text \<open>
  The body of the loop over the stations of event \<open>k\<close> (lines 247-279) for a valid
  entry \<open>Rsta\<close> of a station of the largest area. \<open>Nst\<close> is \<open>Nstations[i]\<close>; a station it
  does not hold has the count \<open>0\<close>, and the division raises. The branch of lines 269-277
  needs \<open>join_unconnected\<close>, which is \<open>None\<close>.
\<close>

definition observe ::
  "nat \<Rightarrow> station option \<Rightarrow> real \<Rightarrow> (station \<times> nat) list \<Rightarrow> nat \<Rightarrow> station \<Rightarrow> real
     \<Rightarrow> build \<Rightarrow> error + build" where
  "observe Ne station response Nst k sta Rsta st =
     (let norm =
        (if station = None then
           (case map_of Nst sta of
              None \<Rightarrow> Inl ZeroDivisionError
            | Some n \<Rightarrow>
                if n = 0 then Inl ZeroDivisionError
                else
                  (let fac = 1 / real n / real (length Nst)
                   in Inr (st\<lparr>norm_row_A :=
                               AList.update k
                                 ((case map_of (norm_row_A st) k of None \<Rightarrow> 0 | Some a \<Rightarrow> a)
                                    + fac)
                                 (norm_row_A st),
                             norm_row_b :=
                               fsub (norm_row_b st) (fmul (np_log (Num Rsta)) (Num fac))\<rparr>)))
         else Inr st)
      in case norm of
           Inl err \<Rightarrow> Inl err
         | Inr st1 \<Rightarrow>
             if Some sta = station then
               Inr (st1\<lparr>system := construct_ols Ne [(k, 1)]
                               (fsub (np_log (Num response)) (np_log (Num Rsta))) (system st1)\<rparr>)
             else
               (case map_of (last_seen st1) sta of
                  Some (kl, Rstal) \<Rightarrow>
                    Inr (st1\<lparr>system := construct_ols Ne [(k, 1), (kl, - 1)]
                                    (fsub (np_log (Num Rstal)) (np_log (Num Rsta))) (system st1),
                              last_seen := AList.update sta (k, Rsta) (last_seen st1)\<rparr>)
                | None \<Rightarrow> Inr (st1\<lparr>last_seen := AList.update sta (k, Rsta) (last_seen st1)\<rparr>)))"

text \<open>\<open>for sta, Rsta in eres['R'].items()\<close> for band \<open>i\<close> and event \<open>k\<close> (lines 246-279).\<close>

fun observe_R ::
  "nat \<Rightarrow> station option \<Rightarrow> real \<Rightarrow> (station \<times> nat) list \<Rightarrow> station pyset \<Rightarrow> nat \<Rightarrow> nat
     \<Rightarrow> (station \<times> entry list) list \<Rightarrow> build \<Rightarrow> error + build" where
  "observe_R Ne station response Nst area i k [] st = Inr st"
| "observe_R Ne station response Nst area i k ((sta, Rsta) # rest) st =
     (if length Rsta \<le> i then Inl IndexError
      else
        (case Rsta ! i of
           Some (Num r) \<Rightarrow>
             if sta \<notin> set area then observe_R Ne station response Nst area i k rest st
             else
               (case observe Ne station response Nst k sta r st of
                  Inl err \<Rightarrow> Inl err
                | Inr st' \<Rightarrow> observe_R Ne station response Nst area i k rest st')
         | _ \<Rightarrow> observe_R Ne station response Nst area i k rest st))"

text \<open>\<open>for k, item in enumerate(results['events'].items())\<close> (line 244), from \<open>k\<close> on.\<close>

fun observe_events ::
  "nat \<Rightarrow> station option \<Rightarrow> real \<Rightarrow> (station \<times> nat) list \<Rightarrow> station pyset \<Rightarrow> nat \<Rightarrow> nat
     \<Rightarrow> (evid \<times> eres option) list \<Rightarrow> build \<Rightarrow> error + build" where
  "observe_events Ne station response Nst area i k [] st = Inr st"
| "observe_events Ne station response Nst area i k ((ev, None) # rest) st = Inl TypeError"
| "observe_events Ne station response Nst area i k ((ev, Some e) # rest) st =
     (case observe_R Ne station response Nst area i k (R e) st of
        Inl err \<Rightarrow> Inl err
      | Inr st' \<Rightarrow> observe_events Ne station response Nst area i (Suc k) rest st')"

text \<open>
  The system of one band (lines 233-283): the loop over the events, then the
  normalization row when no station is pinned.
\<close>

definition build_system ::
  "bool \<Rightarrow> station option \<Rightarrow> real \<Rightarrow> (station \<times> nat) list \<Rightarrow> station pyset \<Rightarrow> nat
     \<Rightarrow> (evid \<times> eres option) list \<Rightarrow> error + ols" where
  "build_system use_sparse station response Nst area i evs =
     (let Ne = length evs;
          st0 = \<lparr>system = \<lparr>row0 = 0, b_rhs = [],
                         Arepr = (if use_sparse then Sparse [] [] [] else Dense [])\<rparr>,
                 norm_row_A = [], norm_row_b = Num 0, last_seen = []\<rparr>
      in case observe_events Ne station response Nst area i 0 evs st0 of
           Inl err \<Rightarrow> Inl err
         | Inr st \<Rightarrow>
             if station = None then
               Inr (construct_ols Ne (norm_row_A st)
                      (fadd (norm_row_b st) (np_log (Num response))) (system st))
             else Inr (system st))"

text \<open>
  The coefficient matrix handed to the solver, as the list of its rows:
  \<open>csr_matrix((data, (row, column)), shape=(rows, Ne))\<close> adds up the entries given for
  one place; \<open>np.array\<close> of the dense rows is the rows themselves.
\<close>

definition csr_matrix :: "real list \<Rightarrow> nat list \<Rightarrow> nat list \<Rightarrow> nat \<Rightarrow> nat \<Rightarrow> real list list" where
  "csr_matrix dat rows cols nrows ncols =
     map (\<lambda>r. map (\<lambda>c. sum_list (map fst
                 (filter (\<lambda>(d, r', c'). r' = r \<and> c' = c) (zip dat (zip rows cols)))))
               [0..<ncols])
       [0..<nrows]"

text \<open>
  The solvers \<open>scipy.sparse.linalg.lsmr\<close> and \<open>scipy.linalg.lstsq\<close> are not part of the
  repository: they are parameters, functions from the matrix and the right-hand side to
  the solution vector \<open>res[0]\<close>, or to \<open>None\<close> when the solver raises. Lines 287-298
  for one band: the solution, exponentiated.
\<close>

type_synonym solver = "real list list \<Rightarrow> pyfloat list \<Rightarrow> pyfloat list option"

definition solve_band :: "solver \<Rightarrow> solver \<Rightarrow> bool \<Rightarrow> nat \<Rightarrow> ols \<Rightarrow> error + pyfloat list" where
  "solve_band lstsq lsmr use_sparse Ne st =
     (case (if use_sparse then
              (case Arepr st of
                 Sparse dat rows cols \<Rightarrow> lsmr (csr_matrix dat rows cols (row0 st) Ne) (b_rhs st)
               | Dense Arows \<Rightarrow> None)
            else
              (case Arepr st of
                 Dense Arows \<Rightarrow> lstsq Arows (b_rhs st)
               | Sparse dat rows cols \<Rightarrow> None)) of
        None \<Rightarrow> Inl SolverError
      | Some x \<Rightarrow> Inr (map np_exp x))"

text \<open>
  \<open>factors[:, i] = ...\<close> (line 298): the column must have one entry per event, or a
  single entry, which numpy repeats; anything else raises \<open>ValueError\<close>.
\<close>

definition as_column :: "nat \<Rightarrow> pyfloat list \<Rightarrow> error + pyfloat list" where
  "as_column Ne x =
     (if length x = Ne then Inr x
      else if length x = 1 then Inr (replicate Ne (x ! 0))
      else Inl ValueError)"

text \<open>The body of the loop over the bands (lines 221-298) for band \<open>i\<close>.\<close>

definition band_factors ::
  "solver \<Rightarrow> solver \<Rightarrow> bool \<Rightarrow> station option \<Rightarrow> real \<Rightarrow> (station \<times> nat) list list
     \<Rightarrow> results \<Rightarrow> nat \<Rightarrow> error + pyfloat list" where
  "band_factors lstsq lsmr use_sparse station response Nstations res i =
     (case find_unconnected_areas res i of
        Inl err \<Rightarrow> Inl err
      | Inr areas \<Rightarrow>
          (case largest_area areas of
             Inl err \<Rightarrow> Inl err
           | Inr area \<Rightarrow>
               (case build_system use_sparse station response (Nstations ! i) area i
                       (events res) of
                  Inl err \<Rightarrow> Inl err
                | Inr st \<Rightarrow>
                    (case solve_band lstsq lsmr use_sparse (length (events res)) st of
                       Inl err \<Rightarrow> Inl err
                     | Inr x \<Rightarrow> as_column (length (events res)) x))))"

fun all_band_factors ::
  "solver \<Rightarrow> solver \<Rightarrow> bool \<Rightarrow> station option \<Rightarrow> real \<Rightarrow> (station \<times> nat) list list
     \<Rightarrow> results \<Rightarrow> nat list \<Rightarrow> error + pyfloat list list" where
  "all_band_factors lstsq lsmr use_sparse station response Nstations res [] = Inr []"
| "all_band_factors lstsq lsmr use_sparse station response Nstations res (i # bands) =
     (case band_factors lstsq lsmr use_sparse station response Nstations res i of
        Inl err \<Rightarrow> Inl err
      | Inr col \<Rightarrow>
          (case all_band_factors lstsq lsmr use_sparse station response Nstations res bands of
             Inl err \<Rightarrow> Inl err
           | Inr cols \<Rightarrow> Inr (col # cols)))"

text \<open>
  Lines 189-298: the factor matrix, one row per event and one column per band. With
  exactly one event \<open>use_sparse\<close> is set to \<open>False\<close>. With no event \<open>Nf\<close> is \<open>None\<close> and
  \<open>range(Nf)\<close> raises \<open>TypeError\<close>.
\<close>

definition compute_factors ::
  "solver \<Rightarrow> solver \<Rightarrow> results \<Rightarrow> station option \<Rightarrow> real \<Rightarrow> bool \<Rightarrow> error + pyfloat list list" where
  "compute_factors lstsq lsmr res station response use_sparse =
     (let Ne = length (events res);
          use_sparse = (if Ne = 1 then False else use_sparse)
      in case get_number_of_freqs res of
           Inl err \<Rightarrow> Inl err
         | Inr None \<Rightarrow> Inl TypeError
         | Inr (Some Nf) \<Rightarrow>
             (case count_stations Nf (events res) of
                Inl err \<Rightarrow> Inl err
              | Inr Nstations \<Rightarrow>
                  (case all_band_factors lstsq lsmr use_sparse station response Nstations res
                          [0..<Nf] of
                     Inl err \<Rightarrow> Inl err
                   | Inr cols \<Rightarrow>
                       Inr (map (\<lambda>k. map (\<lambda>i. cols ! i ! k) [0..<Nf]) [0..<Ne]))))"

text \<open>
  Modelled from the spec: \<open>calculate_source_properties\<close> of \<open>qopen.source\<close> is not among
  the sources. After the rescaling it derives the scalar quantities that depend on the
  source energies (seismic moment, magnitude); these are not fields of this model, and
  the entries of \<open>W\<close> and \<open>R\<close> are left as they are.
\<close>

definition calculate_source_properties :: "results \<Rightarrow> results outcome" where
  "calculate_source_properties res = (res, None)"

text \<open>
  \<open>align_site_responses(results, station=None, response=1., use_sparse=True, ...)\<close>.
  The local variable \<open>join_unconnected\<close> is \<open>None\<close> (line 184), the function has no
  parameter for it.
\<close>

definition align_site_responses ::
  "solver \<Rightarrow> solver \<Rightarrow> results \<Rightarrow> station option \<Rightarrow> real \<Rightarrow> bool \<Rightarrow> results outcome" where
  "align_site_responses lstsq lsmr res station response use_sparse =
     (let res1 = drop_missing_events res;
          join_unconnected = (None :: real option)
      in if join_unconnected \<noteq> None \<and> join_unconnected \<noteq> Some 0
         then (res1, Some NotImplementedError)
         else
           (case compute_factors lstsq lsmr res1 station response use_sparse of
              Inl err \<Rightarrow> (res1, Some err)
            | Inr factors \<Rightarrow>
                (case rescale_results res1 factors of
                   (res2, Some err) \<Rightarrow> (res2, Some err)
                 | (res2, None) \<Rightarrow> calculate_source_properties res2)))"

section \<open>Least squares\<close>

text \<open>
  What the solvers are for: \<open>least_squares A b x\<close> says that \<open>x\<close> minimizes the sum of
  the squares of \<open>A x - b\<close> among the vectors of its length. \<open>dot\<close> is the product of a
  row and a vector.
\<close>

definition dot :: "real list \<Rightarrow> real list \<Rightarrow> real" where
  "dot Arow x = sum_list (map2 (*) Arow x)"

definition residual :: "real list list \<Rightarrow> real list \<Rightarrow> real list \<Rightarrow> real" where
  "residual A bs x = sum_list (map2 (\<lambda>Arow bv. (dot Arow x - bv)\<^sup>2) A bs)"

definition least_squares :: "real list list \<Rightarrow> real list \<Rightarrow> real list \<Rightarrow> bool" where
  "least_squares A bs x \<longleftrightarrow> (\<forall>y. length y = length x \<longrightarrow> residual A bs x \<le> residual A bs y)"

text \<open>
  A solver to run the model with: least squares for one unknown, \<open>x = (a \<cdot> b) / (a \<cdot> a)\<close>
  for the column \<open>a\<close>. It raises on any other system, and on a right-hand side that is
  not finite, as \<open>scipy.linalg.lstsq\<close> does.
\<close>

fun finite_values :: "pyfloat list \<Rightarrow> real list option" where
  "finite_values [] = Some []"
| "finite_values (NaN # xs) = None"
| "finite_values (Num x # xs) = map_option ((#) x) (finite_values xs)"

definition lstsq_one :: solver where
  "lstsq_one A bs =
     (case finite_values bs of
        None \<Rightarrow> None
      | Some bv \<Rightarrow>
          if length A = length bv \<and> list_all (\<lambda>Arow. length Arow = 1) A
             \<and> sum_list (map (\<lambda>Arow. (Arow ! 0)\<^sup>2) A) \<noteq> 0
          then Some [Num (sum_list (map2 (\<lambda>Arow v. Arow ! 0 * v) A bv)
                          / sum_list (map (\<lambda>Arow. (Arow ! 0)\<^sup>2) A))]
          else None)"

text \<open>
  The amplification values of the stations of an event that are valid in band \<open>i\<close>, in
  the order of the dictionary.
\<close>

definition valid_values :: "nat \<Rightarrow> (station \<times> entry list) list \<Rightarrow> real list" where
  "valid_values i Rs =
     concat (map (\<lambda>(sta, Rsta). case Rsta ! i of Some (Num v) \<Rightarrow> [v] | _ \<Rightarrow> []) Rs)"

section \<open>What \<open>_rescale_results\<close> does to every entry\<close>

text \<open>
  \<open>scaled_by F B k e e'\<close>: the event result \<open>e'\<close> is \<open>e\<close> after the bands in \<open>B\<close> have been
  rescaled with row \<open>k\<close> of the factor matrix: the energy entry of a band in \<open>B\<close> is divided
  unless it is missing, an amplification entry of such a band is multiplied unless it or
  the energy entry of the band is missing, and nothing else changes. \<open>shaped Nf e\<close>: the
  event has \<open>Nf\<close> energy entries and at least as many entries for every station.
\<close>

definition scaled_by :: "pyfloat list list \<Rightarrow> nat set \<Rightarrow> nat \<Rightarrow> eres \<Rightarrow> eres \<Rightarrow> bool" where
  "scaled_by F B k e e' \<longleftrightarrow>
     length (W e') = length (W e) \<and> map fst (R e') = map fst (R e) \<and>
     (\<forall>j < length (R e). length (snd (R e' ! j)) = length (snd (R e ! j))) \<and>
     (\<forall>i. W e' ! i =
        (if i \<in> B \<and> \<not> missing (W e ! i) then Some (fdiv (the (W e ! i)) (F ! k ! i))
         else W e ! i)) \<and>
     (\<forall>i. \<forall>j < length (R e). snd (R e' ! j) ! i =
        (if i \<in> B \<and> \<not> missing (W e ! i) \<and> \<not> missing (snd (R e ! j) ! i)
         then Some (fmul (the (snd (R e ! j) ! i)) (F ! k ! i))
         else snd (R e ! j) ! i))"

definition shaped :: "nat \<Rightarrow> eres \<Rightarrow> bool" where
  "shaped Nf e \<longleftrightarrow> length (W e) = Nf \<and> (\<forall>q \<in> set (R e). Nf \<le> length (snd q))"

lemma rescale_R_in_range:
  "rescale_R i f Rs = (Rs', None) \<Longrightarrow> p \<in> set Rs \<Longrightarrow> i < length (snd p)"
  by (induction Rs arbitrary: Rs') (auto split: if_splits prod.splits)

lemma rescale_R_map:
  "rescale_R i f Rs = (Rs', None) \<Longrightarrow>
     Rs' = map (\<lambda>(sta, Rsta). (sta, if missing (Rsta ! i) then Rsta
                                      else Rsta[i := Some (fmul (the (Rsta ! i)) f)])) Rs"
  by (induction Rs arbitrary: Rs') (auto split: if_splits prod.splits)



lemma rescale_event_scaled:
  assumes "rescale_event i k F e = (e', None)"
  shows "scaled_by F {i} k e e' \<and> i < length (W e)"
proof -
  have i: "i < length (W e)"
    using assms by (auto simp: rescale_event_def split: if_splits)
  show ?thesis
  proof (cases "missing (W e ! i)")
    case True
    then have "e' = e" using assms i by (simp add: rescale_event_def)
    then show ?thesis using True i by (simp add: scaled_by_def)
  next
    case False
    then obtain f R' where f: "factor_at F k i = Inr f"
      and R': "rescale_R i f (R e) = (R', None)"
      and e': "e' = e\<lparr>W := (W e)[i := Some (fdiv (the (W e ! i)) f)], R := R'\<rparr>"
      using assms i
      by (auto simp: rescale_event_def Let_def split: if_splits sum.splits prod.splits)
    have ff: "f = F ! k ! i"
      using f by (auto simp: factor_at_def split: if_splits)
    note m = rescale_R_map [OF R']
    have rng: "\<forall>j < length (R e). i < length (snd (R e ! j))"
      using rescale_R_in_range [OF R'] by (meson nth_mem)
    have "scaled_by F {i} k e e'"
      unfolding scaled_by_def e' m
      using False i rng ff
      by (auto simp: nth_list_update case_prod_unfold)
    then show ?thesis using i by simp
  qed
qed


lemma rescale_events_scaled:
  "rescale_events i k F evs = (evs', None) \<Longrightarrow>
     length evs' = length evs \<and>
     (\<forall>n < length evs. \<exists>ev e e'. evs ! n = (ev, Some e) \<and> evs' ! n = (ev, Some e')
         \<and> scaled_by F {i} (k + n) e e' \<and> i < length (W e))"
proof (induction evs arbitrary: k evs')
  case Nil
  then show ?case by simp
next
  case (Cons p evs)
  obtain ev eo where p: "p = (ev, eo)" by (cases p)
  from Cons.prems p obtain e where eo: "eo = Some e" by (cases eo) auto
  from Cons.prems p eo obtain e' rest' where
    e': "rescale_event i k F e = (e', None)"
    and rest': "rescale_events i (Suc k) F evs = (rest', None)"
    and evs': "evs' = (ev, Some e') # rest'"
    by (auto split: prod.splits option.splits)
  note ih = Cons.IH [OF rest']
  note hd = rescale_event_scaled [OF e']
  show ?case
  proof (intro conjI allI impI)
    show "length evs' = length (p # evs)" using ih evs' by simp
  next
    fix n assume n: "n < length (p # evs)"
    show "\<exists>ev e e'. (p # evs) ! n = (ev, Some e) \<and> evs' ! n = (ev, Some e')
         \<and> scaled_by F {i} (k + n) e e' \<and> i < length (W e)"
    proof (cases n)
      case 0
      then show ?thesis using hd p eo evs' by simp
    next
      case (Suc m)
      then have "m < length evs" using n by simp
      with ih obtain ev2 e2 e2' where "evs ! m = (ev2, Some e2)" "rest' ! m = (ev2, Some e2')"
        "scaled_by F {i} (Suc k + m) e2 e2'" "i < length (W e2)" by blast
      then show ?thesis using Suc evs' by simp
    qed
  qed
qed






lemma rescale_R_succeeds:
  "(\<forall>q \<in> set Rs. i < length (snd q)) \<Longrightarrow> snd (rescale_R i f Rs) = None"
  by (induction Rs) (auto split: prod.splits)

lemma rescale_event_succeeds:
  assumes "i < length (W e)" and "\<forall>q \<in> set (R e). i < length (snd q)"
    and "k < length F" and "i < length (F ! k)"
  shows "snd (rescale_event i k F e) = None"
  using assms rescale_R_succeeds [of "R e" i "F ! k ! i", OF assms(2)]
  by (auto simp: rescale_event_def factor_at_def split: prod.splits)

lemma scaled_by_shaped:
  assumes "scaled_by F B k e e'" and "shaped Nf e"
  shows "shaped Nf e'"
proof -
  have len: "length (R e') = length (R e)"
    using assms(1) unfolding scaled_by_def by (metis length_map)
  have "\<forall>q \<in> set (R e'). Nf \<le> length (snd q)"
  proof
    fix q assume "q \<in> set (R e')"
    then obtain j where j: "j < length (R e')" "R e' ! j = q" by (auto simp: in_set_conv_nth)
    then have "length (snd q) = length (snd (R e ! j))"
      using assms(1) len unfolding scaled_by_def by auto
    moreover have "R e ! j \<in> set (R e)" using j len by simp
    ultimately show "Nf \<le> length (snd q)" using assms(2) unfolding shaped_def by auto
  qed
  then show ?thesis using assms unfolding shaped_def scaled_by_def by simp
qed

lemma rescale_events_succeeds:
  "(\<forall>p \<in> set evs. \<exists>e. snd p = Some e \<and> shaped Nf e) \<Longrightarrow> i < Nf \<Longrightarrow>
   k + length evs \<le> length F \<Longrightarrow> (\<forall>row \<in> set F. Nf \<le> length row) \<Longrightarrow>
   snd (rescale_events i k F evs) = None"
proof (induction evs arbitrary: k)
  case Nil
  then show ?case by simp
next
  case (Cons p evs)
  obtain ev eo where p: "p = (ev, eo)" by (cases p)
  with Cons.prems(1) obtain e where e: "eo = Some e" "shaped Nf e" by auto
  have k: "k < length F" using Cons.prems(3) by simp
  then have "Nf \<le> length (F ! k)" using Cons.prems(4) by simp
  then have "snd (rescale_event i k F e) = None"
    using e(2) Cons.prems(2) k by (intro rescale_event_succeeds) (auto simp: shaped_def)
  moreover have "snd (rescale_events i (Suc k) F evs) = None"
    using Cons.prems by (intro Cons.IH) auto
  ultimately show ?case using p e by (auto split: prod.splits option.splits)
qed

lemma rescale_bands_succeeds:
  "(\<forall>p \<in> set evs. \<exists>e. snd p = Some e \<and> shaped Nf e) \<Longrightarrow> (\<forall>i \<in> set bands. i < Nf) \<Longrightarrow>
   length evs \<le> length F \<Longrightarrow> (\<forall>row \<in> set F. Nf \<le> length row) \<Longrightarrow>
   snd (rescale_bands F bands evs) = None"
proof (induction bands arbitrary: evs)
  case Nil
  then show ?case by simp
next
  case (Cons i bands)
  have s: "snd (rescale_events i 0 F evs) = None"
    using Cons.prems by (intro rescale_events_succeeds [where Nf = Nf]) auto
  then obtain mid where mid: "rescale_events i 0 F evs = (mid, None)"
    by (cases "rescale_events i 0 F evs") auto
  note st = rescale_events_scaled [OF mid]
  have "\<forall>p \<in> set mid. \<exists>e. snd p = Some e \<and> shaped Nf e"
  proof
    fix p assume "p \<in> set mid"
    then obtain n where n: "n < length mid" "mid ! n = p" by (auto simp: in_set_conv_nth)
    with st obtain ev e e' where a: "evs ! n = (ev, Some e)" "mid ! n = (ev, Some e')"
      "scaled_by F {i} (0 + n) e e'" by fastforce
    have "evs ! n \<in> set evs" using n st by simp
    with a Cons.prems(1) have "shaped Nf e" by fastforce
    with a n scaled_by_shaped show "\<exists>e. snd p = Some e \<and> shaped Nf e" by fastforce
  qed
  moreover have "length mid \<le> length F" using st Cons.prems(3) by simp
  ultimately have "snd (rescale_bands F bands mid) = None"
    using Cons.prems by (intro Cons.IH) auto
  then show ?case using mid by simp
qed

lemma get_number_of_freqs_loop_shaped:
  "(\<forall>p \<in> set evs. \<exists>e. snd p = Some e \<and> length (W e) = Nf) \<Longrightarrow> N = None \<or> N = Some Nf \<Longrightarrow>
   get_number_of_freqs_loop N evs = Inr (if evs = [] then N else Some Nf)"
  by (induction N evs rule: get_number_of_freqs_loop.induct) (auto simp: Let_def)

lemma rescale_results_succeeds:
  assumes "events res \<noteq> []"
    and "\<forall>p \<in> set (events res). \<exists>e. snd p = Some e \<and> shaped Nf e"
    and "length (events res) \<le> length F" and "\<forall>row \<in> set F. Nf \<le> length row"
  shows "snd (rescale_results res F) = None"
proof -
  have "\<forall>p \<in> set (events res). \<exists>e. snd p = Some e \<and> length (W e) = Nf"
    using assms(2) unfolding shaped_def by blast
  then have nf: "get_number_of_freqs res = Inr (Some Nf)"
    using get_number_of_freqs_loop_shaped [of "events res" Nf None] assms(1)
    by (simp add: get_number_of_freqs_def)
  have "snd (rescale_bands F [0..<Nf] (events res)) = None"
    using assms by (intro rescale_bands_succeeds [where Nf = Nf]) auto
  then show ?thesis using nf by (auto simp: rescale_results_def split: prod.splits)
qed

section \<open>What \<open>_merge_sets\<close> returns\<close>
























section \<open>Claims\<close>






text \<open>
  C9: \<open>_merge_sets\<close> applied to the sets \<open>{A,B}\<close>, \<open>{B,C}\<close>, \<open>{D,E}\<close> returns exactly the
  two sets \<open>{A,B,C}\<close> and \<open>{D,E}\<close>.
\<close>

theorem C9_merge_sets_example:
  "map set (merge_sets [[''A'', ''B''], [''B'', ''C''], [''D'', ''E'']])
     = [{''A'', ''B'', ''C''}, {''D'', ''E''}]"
  by (simp add: merge_sets_def merge_loop.simps merge_pass_def isdisjoint_def update_def)



end
